theory Spec2Isabelle
  imports Complex_Main "HOL-Library.AList"
begin

section \<open>Pokagotchi: the pet state store and the scoring engine of \<open>server.py\<close>\<close>

text \<open>
  The server keeps one JSON record, \<open>pet_state.json\<close>, and offers three tools: a status
  report, an update from email metrics, and advice. This theory embeds the functions of
  \<open>server.py\<close> one by one, under their own names.

  Conventions of the embedding.
  \<^item> Python text is a \<open>string\<close> holding the UTF-8 bytes of the text; the symbols of the
    source that are not ASCII are written as their bytes.
  \<^item> Python's \<open>int\<close> is \<open>int\<close>. The tool parameter \<open>avg_response_time_hours\<close> is a
    float that the code only compares with \<open>4\<close>; it is a \<open>real\<close> here (a NaN compares
    like any value that is not below \<open>4\<close>).
  \<^item> An exception is the \<open>Inl\<close> of a sum; a function that touches the file returns the
    file it leaves behind next to its result.
  \<^item> The clock is an input: \<open>now\<close> is the text that
    \<open>datetime.datetime.now().isoformat()\<close> gives at the call.
\<close>

subsection \<open>Python values, errors and the persisted file\<close>

datatype pyerror =
    FileNotFoundError
  | JSONDecodeError
  | KeyError string
  | TypeError
  | OverflowError

text \<open>
  The values a member of a persisted JSON object can take in this model: \<open>null\<close>,
  \<open>true\<close>/\<open>false\<close>, an integer, or a string. Members that are numbers with a fraction
  or an exponent (Python floats), arrays or objects are outside the model.
\<close>

datatype pyval = PNone | PBool bool | PInt int | PStr string

text \<open>
  A Python \<open>dict\<close> with string keys, in insertion order. Assigning to a key that is
  present keeps its place, assigning to a new key appends it: \<open>AList.update\<close>.
\<close>

type_synonym pydict = "(string \<times> pyval) list"

text \<open>
  What \<open>json.load\<close> returns, and what \<open>state\<close> holds in the tools: a dict for a JSON
  object, and for every other JSON document (an array, a string, a number, \<open>true\<close>,
  \<open>false\<close>, \<open>null\<close>) a value that is not a dict. The tools only subscript \<open>state\<close>
  with a string key, which raises \<open>TypeError\<close> on each of those values alike, so the
  model keeps one value \<open>PNotDict\<close> for them.
\<close>

datatype pyjson = PDict pydict | PNotDict

text \<open>
  What is found at the path \<open>pet_state.json\<close>: no file, a file whose text is not a JSON
  document, or a file holding a JSON document (an object or not).
\<close>

datatype pet_file = Absent | Malformed | Document pyjson

subsection \<open>Text constants of the source\<close>

definition face_happy :: string where
  "face_happy = [CHR 0xF0, CHR 0x9F, CHR 0x98, CHR 0x8A]"

definition face_neutral :: string where
  "face_neutral = [CHR 0xF0, CHR 0x9F, CHR 0x98, CHR 0x90]"

definition face_dizzy :: string where
  "face_dizzy = [CHR 0xF0, CHR 0x9F, CHR 0x98, CHR 0xB5]"

subsection \<open>The scoring engine\<close>

text \<open>
  \<open>email_stats\<close> is the dict that \<open>calculate_pet_stats\<close> receives. Each key may be
  missing (\<open>None\<close>): the function reads every key with \<open>.get(key, default)\<close>.
\<close>

record email_stats =
  unread_count :: "int option"
  total_inbox_count :: "int option"
  emails_awaiting_reply :: "int option"
  avg_response_time_hours :: "real option"
  dormant_threads_7days :: "int option"
  action_emails_percent :: "int option"
  volume_today :: "int option"
  is_busy_period :: "bool option"

definition dict_get :: "'a option \<Rightarrow> 'a \<Rightarrow> 'a" where
  "dict_get entry dflt = (case entry of None \<Rightarrow> dflt | Some v \<Rightarrow> v)"

definition calculate_pet_stats :: "email_stats \<Rightarrow> int \<times> int \<times> int" where
  "calculate_pet_stats stats =
    (let health = 50;
         happiness = 50;
         energy = 50;
         \<comment> \<open>Health calculation (responsiveness)\<close>
         emails_awaiting = dict_get (emails_awaiting_reply stats) 0;
         avg_response_time = dict_get (avg_response_time_hours stats) 24;
         dormant_threads = dict_get (dormant_threads_7days stats) 0;
         health = (if emails_awaiting = 0 then health + 15
                   else if emails_awaiting < 5 then health + 10
                   else if emails_awaiting > 10 then health - 10
                   else health);
         health = (if avg_response_time < 4 then health + 5 else health);
         health = health - dormant_threads * 15;
         \<comment> \<open>Happiness calculation (organization)\<close>
         unread = dict_get (unread_count stats) 0;
         total_inbox = dict_get (total_inbox_count stats) 0;
         happiness = (if unread = 0 then happiness + 20
                      else if unread < 10 then happiness + 10
                      else if unread > 50 then happiness - 5
                      else happiness);
         happiness = (if total_inbox < 50 then happiness + 5
                      else if total_inbox > 200 then happiness - 10
                      else happiness);
         \<comment> \<open>Energy calculation (workload balance)\<close>
         action_percent = dict_get (action_emails_percent stats) 50;
         busy = dict_get (is_busy_period stats) False;
         volume = dict_get (volume_today stats) 10;
         energy = (if action_percent \<le> 30 then energy + 10
                   else if action_percent > 70 then energy - 10
                   else energy);
         energy = (if busy \<and> volume > 30 then energy - 5
                   else if \<not> busy \<and> volume < 10 then energy + 15
                   else energy);
         \<comment> \<open>Clamp values between 0-100\<close>
         health = max 0 (min 100 health);
         happiness = max 0 (min 100 happiness);
         energy = max 0 (min 100 energy)
     in (health, happiness, energy))"

text \<open>
  The dict that the update tool builds from its eight parameters: every key is present.
\<close>

definition make_email_stats ::
  "int \<Rightarrow> int \<Rightarrow> int \<Rightarrow> real \<Rightarrow> int \<Rightarrow> int \<Rightarrow> int \<Rightarrow> bool \<Rightarrow> email_stats" where
  "make_email_stats unread total_inbox awaiting avg_hours dormant action_percent volume busy =
    \<lparr> unread_count = Some unread,
      total_inbox_count = Some total_inbox,
      emails_awaiting_reply = Some awaiting,
      avg_response_time_hours = Some avg_hours,
      dormant_threads_7days = Some dormant,
      action_emails_percent = Some action_percent,
      volume_today = Some volume,
      is_busy_period = Some busy \<rparr>"

subsection \<open>Python built-ins used by the tools\<close>

text \<open>\<open>str(n)\<close> of an integer: decimal digits, with a leading minus sign.\<close>

fun str_nat :: "nat \<Rightarrow> string" where
  "str_nat n =
     (if n < 10 then [''0123456789'' ! n]
      else str_nat (n div 10) @ [''0123456789'' ! (n mod 10)])"

declare str_nat.simps [simp del]

definition str_int :: "int \<Rightarrow> string" where
  "str_int i = (if i < 0 then CHR ''-'' # str_nat (nat (- i)) else str_nat (nat i))"

text \<open>What an f-string puts in place of \<open>{v}\<close>.\<close>

fun py_format :: "pyval \<Rightarrow> string" where
  "py_format PNone = ''None''"
| "py_format (PBool b) = (if b then ''True'' else ''False'')"
| "py_format (PInt i) = str_int i"
| "py_format (PStr s) = s"

text \<open>
  The number a value stands for in arithmetic and in comparisons with a number: an
  \<open>int\<close> is itself, \<open>True\<close> and \<open>False\<close> are \<open>1\<close> and \<open>0\<close>; \<open>None\<close> and strings
  raise \<open>TypeError\<close> there.
\<close>

fun py_num :: "pyval \<Rightarrow> pyerror + int" where
  "py_num (PInt i) = Inr i"
| "py_num (PBool b) = Inr (if b then 1 else 0)"
| "py_num PNone = Inl TypeError"
| "py_num (PStr s) = Inl TypeError"

text \<open>
  \<open>state[key]\<close> with a string key: on a dict the value, or \<open>KeyError\<close>; on a list, a
  string, a number or \<open>None\<close>, \<open>TypeError\<close>.
\<close>

definition py_getitem :: "pyjson \<Rightarrow> string \<Rightarrow> pyerror + pyval" where
  "py_getitem state k =
     (case state of
        PDict d \<Rightarrow> (case map_of d k of None \<Rightarrow> Inl (KeyError k) | Some v \<Rightarrow> Inr v)
      | PNotDict \<Rightarrow> Inl TypeError)"

text \<open>
  \<open>state[key] = value\<close> with a string key: a dict is updated in place; a list, a
  string, a number or \<open>None\<close> raises \<open>TypeError\<close>.
\<close>

definition py_setitem :: "pyjson \<Rightarrow> string \<Rightarrow> pyval \<Rightarrow> pyerror + pyjson" where
  "py_setitem state k v =
     (case state of
        PDict d \<Rightarrow> Inr (PDict (AList.update k v d))
      | PNotDict \<Rightarrow> Inl TypeError)"

text \<open>Sequencing of statements that may raise: the first exception ends the call.\<close>

definition and_then :: "pyerror + 'a \<Rightarrow> ('a \<Rightarrow> pyerror + 'b) \<Rightarrow> pyerror + 'b" where
  "and_then r f = (case r of Inl e \<Rightarrow> Inl e | Inr v \<Rightarrow> f v)"

text \<open>
  \<open>n / 3\<close> for an integer \<open>n\<close>. Python rounds the quotient to the nearest double and
  raises \<open>OverflowError\<close> when that is out of range, that is from
  \<open>2^1024 - 2^970\<close> on. The model keeps the exact quotient: the code only compares it
  with \<open>80\<close> and \<open>50\<close>, and rounding a third of an integer never crosses an integer.
\<close>

definition py_div3 :: "int \<Rightarrow> pyerror + real" where
  "py_div3 n =
     (if 3 * (2 ^ 1024 - 2 ^ 970) \<le> \<bar>n\<bar> then Inl OverflowError
      else Inr (real_of_int n / 3))"

text \<open>\<open>sep.join(lines)\<close>.\<close>

fun py_join :: "string \<Rightarrow> string list \<Rightarrow> string" where
  "py_join sep [] = []"
| "py_join sep [x] = x"
| "py_join sep (x # y # ys) = x @ sep @ py_join sep (y # ys)"

subsection \<open>The state store\<close>

definition default_state :: "string \<Rightarrow> pydict" where
  "default_state now =
     [(''name'', PStr ''Pokagotchi''),
      (''health'', PInt 75),
      (''happiness'', PInt 75),
      (''energy'', PInt 75),
      (''last_updated'', PStr now),
      (''status'', PStr ''okay''),
      (''mood_emoji'', PStr face_neutral)]"

text \<open>
  The body of the \<open>try\<close> in \<open>load_pet_state\<close>: \<open>open(PET_STATE_FILE, 'r')\<close> raises
  \<open>FileNotFoundError\<close> when there is no file, \<open>json.load\<close> raises \<open>JSONDecodeError\<close> on
  text that is not JSON, and gives the value of the document otherwise, dict or not.
\<close>

fun read_json :: "pet_file \<Rightarrow> pyerror + pyjson" where
  "read_json Absent = Inl FileNotFoundError"
| "read_json Malformed = Inl JSONDecodeError"
| "read_json (Document d) = Inr d"

text \<open>
  \<open>load_pet_state\<close>: the \<open>except FileNotFoundError\<close> clause returns the default state,
  stamped with the clock; every other exception leaves the function. Nothing is written:
  the file is returned as it was.
\<close>

definition load_pet_state :: "string \<Rightarrow> pet_file \<Rightarrow> (pyerror + pyjson) \<times> pet_file" where
  "load_pet_state now f =
     (case read_json f of
        Inl FileNotFoundError \<Rightarrow> (Inr (PDict (default_state now)), f)
      | Inl e \<Rightarrow> (Inl e, f)
      | Inr state \<Rightarrow> (Inr state, f))"

text \<open>
  \<open>save_pet_state\<close>: \<open>open(PET_STATE_FILE, 'w')\<close> and \<open>json.dump\<close> replace whatever was
  at the path by the document of \<open>state\<close>.
\<close>

definition save_pet_state :: "pyjson \<Rightarrow> pet_file \<Rightarrow> pet_file" where
  "save_pet_state state f = Document state"

subsection \<open>Presentation\<close>

definition art_happy :: string where
  "art_happy =
     ''    '' @ [CHR 0xE2, CHR 0x97, CHR 0x95] @ ''   '' @ [CHR 0xE2, CHR 0x97, CHR 0x95, CHR 0x0A] @
     ''      '' @ [CHR 0xCF, CHR 0x89, CHR 0x0A] @
     ''   '' @ [CHR 0x5C] @ ''_____/'' @ [CHR 0x0A] @
     ''    |  |  |'' @ [CHR 0x0A] @
     ''     '' @ [CHR 0xF0, CHR 0x9F, CHR 0x98, CHR 0x8A]"

definition art_neutral :: string where
  "art_neutral =
     ''    '' @ [CHR 0xE2, CHR 0x97, CHR 0x94] @ ''   '' @ [CHR 0xE2, CHR 0x97, CHR 0x94, CHR 0x0A] @
     ''      '' @ [CHR 0xEF, CHR 0xB8, CHR 0xB6, CHR 0x0A] @
     ''   '' @ [CHR 0x5C] @ ''_____/'' @ [CHR 0x0A] @
     ''    |  |  |'' @ [CHR 0x0A] @
     ''     '' @ [CHR 0xF0, CHR 0x9F, CHR 0x98, CHR 0x90]"

definition art_dizzy :: string where
  "art_dizzy =
     ''    '' @ [CHR 0xC3, CHR 0x97] @ ''   '' @ [CHR 0xC3, CHR 0x97, CHR 0x0A] @
     ''      '' @ [CHR 0xEF, CHR 0xB8, CHR 0xB5, CHR 0x0A] @
     ''   '' @ [CHR 0x5C] @ ''_____/'' @ [CHR 0x0A] @
     ''    |  |  |'' @ [CHR 0x0A] @
     ''     '' @ [CHR 0xF0, CHR 0x9F, CHR 0x98, CHR 0xB5]"

text \<open>
  \<open>get_pet_ascii_art\<close>: \<open>(health + happiness + energy) / 3\<close> needs three numbers (any
  other mix of values ends in \<open>TypeError\<close>, at a \<open>+\<close> or at the \<open>/\<close>).
\<close>

definition get_pet_ascii_art :: "pyval \<Rightarrow> pyval \<Rightarrow> pyval \<Rightarrow> pyerror + string" where
  "get_pet_ascii_art health happiness energy =
     and_then (py_num health) (\<lambda>h.
     and_then (py_num happiness) (\<lambda>p.
     and_then (py_num energy) (\<lambda>e.
     and_then (py_div3 (h + p + e)) (\<lambda>avg_stat.
       if avg_stat \<ge> 80 then Inr art_happy
       else if avg_stat \<ge> 50 then Inr art_neutral
       else Inr art_dizzy))))"

definition msg_responsive :: string where
  "msg_responsive =
     ''Your Pokagotchi is responsive! '' @
     [CHR 0xF0, CHR 0x9F, CHR 0x93, CHR 0xA7, CHR 0xE2, CHR 0x9C, CHR 0xA8]"

definition msg_attention :: string where
  "msg_attention =
     ''Your pet needs some email attention '' @ [CHR 0xF0, CHR 0x9F, CHR 0x93, CHR 0xAC]"

definition msg_drowning :: string where
  "msg_drowning =
     ''Your Pokagotchi is drowning in emails! '' @ [CHR 0xF0, CHR 0x9F, CHR 0x98, CHR 0xB5]"

definition msg_organized :: string where
  "msg_organized =
     ''Inbox organized, pet happy! '' @
     [CHR 0xF0, CHR 0x9F, CHR 0x93, CHR 0xA5, CHR 0xF0, CHR 0x9F, CHR 0x98, CHR 0x8A]"

definition msg_exhausted :: string where
  "msg_exhausted =
     ''Too many action emails, pet exhausted! '' @ [CHR 0xF0, CHR 0x9F, CHR 0x98, CHR 0xB4]"

definition get_status_message :: "pyval \<Rightarrow> pyval \<Rightarrow> pyval \<Rightarrow> pyerror + string" where
  "get_status_message health happiness energy =
     and_then (py_num health) (\<lambda>h.
       let messages = [];
           messages = messages @ (if h \<ge> 80 then [msg_responsive]
                                  else if h \<ge> 50 then [msg_attention]
                                  else [msg_drowning])
       in and_then (py_num happiness) (\<lambda>p.
         let messages = (if p \<ge> 80 then messages @ [msg_organized] else messages)
         in and_then (py_num energy) (\<lambda>e.
           let messages = (if e < 50 then messages @ [msg_exhausted] else messages)
           in Inr (py_join '' | '' messages))))"

subsection \<open>The tools\<close>

text \<open>
  \<open>check_pet_status\<close>. The arguments of the two helper calls are read first (a missing key
  raises \<open>KeyError\<close>, a state that is not a dict \<open>TypeError\<close>), then the f-string reads
  \<open>name\<close>, the three scores and \<open>last_updated\<close>.
\<close>

definition status_report :: "pyjson \<Rightarrow> pyerror + string" where
  "status_report state =
     and_then (py_getitem state ''health'') (\<lambda>health.
     and_then (py_getitem state ''happiness'') (\<lambda>happiness.
     and_then (py_getitem state ''energy'') (\<lambda>energy.
     and_then (get_pet_ascii_art health happiness energy) (\<lambda>ascii_art.
     and_then (get_status_message health happiness energy) (\<lambda>status_msg.
     and_then (py_getitem state ''name'') (\<lambda>name.
     and_then (py_getitem state ''last_updated'') (\<lambda>last_updated.
       Inr ([CHR 0x0A, CHR 0xF0, CHR 0x9F, CHR 0x90, CHR 0xBE] @ '' '' @ py_format name @
            '' Status '' @ [CHR 0xF0, CHR 0x9F, CHR 0x90, CHR 0xBE, CHR 0x0A, CHR 0x0A] @
            ascii_art @
            [CHR 0x0A, CHR 0x0A] @ ''Health: '' @ py_format health @
            ''/100 '' @ [CHR 0xE2, CHR 0x9D, CHR 0xA4, CHR 0xEF, CHR 0xB8, CHR 0x8F, CHR 0x0A] @
            ''Happiness: '' @ py_format happiness @
            ''/100 '' @ [CHR 0xF0, CHR 0x9F, CHR 0x98, CHR 0x8A, CHR 0x0A] @
            ''Energy: '' @ py_format energy @
            ''/100 '' @ [CHR 0xE2, CHR 0x9A, CHR 0xA1, CHR 0x0A, CHR 0x0A] @
            status_msg @
            [CHR 0x0A, CHR 0x0A] @ ''Last updated: '' @ py_format last_updated @
            [CHR 0x0A]))))))))"

definition check_pet_status :: "string \<Rightarrow> pet_file \<Rightarrow> (pyerror + string) \<times> pet_file" where
  "check_pet_status now f =
     (case load_pet_state now f of
        (Inl e, f') \<Rightarrow> (Inl e, f')
      | (Inr state, f') \<Rightarrow> (status_report state, f'))"

text \<open>
  The \<open>if\<close>/\<open>elif\<close>/\<open>else\<close> on \<open>avg_stat\<close> in \<open>update_pet_from_email_data\<close>, as a
  function of \<open>avg_stat\<close>: the values written to \<open>status\<close> and \<open>mood_emoji\<close>.
\<close>

definition classify :: "real \<Rightarrow> string \<times> string" where
  "classify avg_stat =
     (if avg_stat \<ge> 80 then (''thriving'', face_happy)
      else if avg_stat \<ge> 50 then (''okay'', face_neutral)
      else (''struggling'', face_dizzy))"

text \<open>
  \<open>update_pet_from_email_data\<close>. The scores are computed before the state is loaded; the
  six assignments go to the loaded state in the order of the source, and the first one
  raises \<open>TypeError\<close> when the loaded value is not a dict, before anything is saved; the
  clock is read for \<open>last_updated\<close> (the reading that \<open>load_pet_state\<close> takes for a
  missing file is overwritten here, so one reading \<open>now\<close> serves both). The three scores
  are clamped integers, so the division cannot overflow.
\<close>

definition update_pet_from_email_data ::
  "int \<Rightarrow> int \<Rightarrow> int \<Rightarrow> real \<Rightarrow> int \<Rightarrow> int \<Rightarrow> int \<Rightarrow> bool \<Rightarrow>
   string \<Rightarrow> pet_file \<Rightarrow> (pyerror + string) \<times> pet_file" where
  "update_pet_from_email_data unread total_inbox awaiting avg_hours dormant action_percent
       volume busy now f =
     (let email_stats =
            make_email_stats unread total_inbox awaiting avg_hours dormant action_percent
              volume busy;
          (health, happiness, energy) = calculate_pet_stats email_stats
      in case load_pet_state now f of
           (Inl e, f') \<Rightarrow> (Inl e, f')
         | (Inr state, f') \<Rightarrow>
             (case
                and_then (py_setitem state ''health'' (PInt health)) (\<lambda>state.
                and_then (py_setitem state ''happiness'' (PInt happiness)) (\<lambda>state.
                and_then (py_setitem state ''energy'' (PInt energy)) (\<lambda>state.
                and_then (py_setitem state ''last_updated'' (PStr now)) (\<lambda>state.
                  let avg_stat = real_of_int (health + happiness + energy) / 3;
                      (status, mood_emoji) = classify avg_stat
                  in and_then (py_setitem state ''status'' (PStr status)) (\<lambda>state.
                     py_setitem state ''mood_emoji'' (PStr mood_emoji))))))
              of
                Inl e \<Rightarrow> (Inl e, f')
              | Inr state \<Rightarrow>
                  (Inr (''Pet updated! Health: '' @ str_int health @
                        '', Happiness: '' @ str_int happiness @
                        '', Energy: '' @ str_int energy),
                   save_pet_state state f')))"

definition tip_health :: string where
  "tip_health =
     [CHR 0xF0, CHR 0x9F, CHR 0x8F, CHR 0xA5] @
     '' Health tip: Reply to those pending emails to boost your pet'' @ [CHR 0x27] @
     ''s health!''"

definition tip_happiness :: string where
  "tip_happiness =
     [CHR 0xF0, CHR 0x9F, CHR 0x93, CHR 0xA5] @
     '' Happiness tip: Try achieving inbox zero - your pet loves organization!''"

definition tip_energy :: string where
  "tip_energy =
     [CHR 0xE2, CHR 0x9A, CHR 0xA1] @
     '' Energy tip: Take breaks between email sessions to recharge your pet!''"

definition great_job :: string where
  "great_job =
     [CHR 0xF0, CHR 0x9F, CHR 0x8E, CHR 0x89] @
     '' Great job! Your Pokagotchi is thriving! Keep up the good email habits!''"

text \<open>
  \<open>get_pet_advice\<close>, from the loaded state: three separate \<open>if\<close>s fill the list
  \<open>advice\<close>, the last \<open>if\<close> adds the congratulation to an empty list.
\<close>

definition advice_lines :: "pyjson \<Rightarrow> pyerror + string list" where
  "advice_lines state =
     (let advice = []
      in and_then (and_then (py_getitem state ''health'') py_num) (\<lambda>h.
           let advice = (if h < 70 then advice @ [tip_health] else advice)
           in and_then (and_then (py_getitem state ''happiness'') py_num) (\<lambda>p.
             let advice = (if p < 70 then advice @ [tip_happiness] else advice)
             in and_then (and_then (py_getitem state ''energy'') py_num) (\<lambda>e.
               let advice = (if e < 70 then advice @ [tip_energy] else advice);
                   advice = (if advice = [] then advice @ [great_job] else advice)
               in Inr advice))))"

definition get_pet_advice :: "string \<Rightarrow> pet_file \<Rightarrow> (pyerror + string) \<times> pet_file" where
  "get_pet_advice now f =
     (case load_pet_state now f of
        (Inl e, f') \<Rightarrow> (Inl e, f')
      | (Inr state, f') \<Rightarrow>
          (and_then (advice_lines state) (\<lambda>advice. Inr (py_join [CHR 0x0A] advice)), f'))"

subsection \<open>The invariant of a pet state\<close>

text \<open>
  The data model's invariant of a PetState, in the words of the specification: the three
  scores are integers from 0 to 100, and \<open>status\<close> and \<open>mood_emoji\<close> are the band of
  the mean of the three scores.
\<close>

definition int_field :: "pydict \<Rightarrow> string \<Rightarrow> int option" where
  "int_field state k = (case map_of state k of Some (PInt i) \<Rightarrow> Some i | _ \<Rightarrow> None)"

definition str_field :: "pydict \<Rightarrow> string \<Rightarrow> string option" where
  "str_field state k = (case map_of state k of Some (PStr s) \<Rightarrow> Some s | _ \<Rightarrow> None)"

definition pet_state_ok :: "pydict \<Rightarrow> bool" where
  "pet_state_ok state =
     (case (int_field state ''health'', int_field state ''happiness'',
            int_field state ''energy'', str_field state ''status'',
            str_field state ''mood_emoji'') of
        (Some h, Some p, Some e, Some status, Some mood) \<Rightarrow>
          0 \<le> h \<and> h \<le> 100 \<and> 0 \<le> p \<and> p \<le> 100 \<and> 0 \<le> e \<and> e \<le> 100 \<and>
          (let mean = real_of_int (h + p + e) / 3
           in ((80 \<le> mean) = (status = ''thriving'' \<and> mood = face_happy)) \<and>
              ((50 \<le> mean \<and> mean < 80) = (status = ''okay'' \<and> mood = face_neutral)) \<and>
              ((mean < 50) = (status = ''struggling'' \<and> mood = face_dizzy)))
      | _ \<Rightarrow> False)"

section \<open>Properties\<close>

subsection \<open>Facts about the store and the scoring function\<close>

lemma clamp_bounds: "0 \<le> max 0 (min 100 (x::int)) \<and> max 0 (min 100 x) \<le> 100"
  by simp

lemma scores_clamped:
  "0 \<le> fst (calculate_pet_stats stats) \<and> fst (calculate_pet_stats stats) \<le> 100 \<and>
   0 \<le> fst (snd (calculate_pet_stats stats)) \<and> fst (snd (calculate_pet_stats stats)) \<le> 100 \<and>
   0 \<le> snd (snd (calculate_pet_stats stats)) \<and> snd (snd (calculate_pet_stats stats)) \<le> 100"
  unfolding calculate_pet_stats_def Let_def fst_conv snd_conv
  using clamp_bounds by blast

lemma health_bound:
  "0 \<le> dict_get (dormant_threads_7days stats) 0 \<Longrightarrow> fst (calculate_pet_stats stats) \<le> 70"
  unfolding calculate_pet_stats_def Let_def fst_conv
  by auto

lemma happiness_bound: "fst (snd (calculate_pet_stats stats)) \<le> 75"
  unfolding calculate_pet_stats_def Let_def fst_conv snd_conv
  by auto

lemma energy_bound: "snd (snd (calculate_pet_stats stats)) \<le> 75"
  unfolding calculate_pet_stats_def Let_def fst_conv snd_conv
  by auto

lemma scores_defaults:
  "calculate_pet_stats (make_email_stats 0 0 0 24 0 50 10 False) = (65, 75, 50)"
  by (simp add: calculate_pet_stats_def make_email_stats_def dict_get_def)

lemma scores_negative_dormant:
  "calculate_pet_stats (make_email_stats 0 0 0 24 (- 4) 10 5 False) = (100, 75, 75)"
  by (simp add: calculate_pet_stats_def make_email_stats_def dict_get_def)

lemma str_int_examples:
  "str_int 100 = ''100''" "str_int 75 = ''75''" "str_int 65 = ''65''" "str_int 50 = ''50''"
  by (simp_all add: str_int_def str_nat.simps)

lemma faces_distinct:
  "face_happy \<noteq> face_neutral" "face_happy \<noteq> face_dizzy" "face_neutral \<noteq> face_dizzy"
  "face_neutral \<noteq> face_happy" "face_dizzy \<noteq> face_happy" "face_dizzy \<noteq> face_neutral"
  by (simp_all add: face_happy_def face_neutral_def face_dizzy_def)

lemma tips_distinct:
  "great_job \<noteq> tip_health" "great_job \<noteq> tip_happiness" "great_job \<noteq> tip_energy"
  by (simp_all add: great_job_def tip_health_def tip_happiness_def tip_energy_def)

lemma load_pet_state_Absent:
  "load_pet_state now Absent = (Inr (PDict (default_state now)), Absent)"
  by (simp add: load_pet_state_def)

lemma load_pet_state_Malformed:
  "load_pet_state now Malformed = (Inl JSONDecodeError, Malformed)"
  by (simp add: load_pet_state_def)

lemma load_pet_state_Document: "load_pet_state now (Document d) = (Inr d, Document d)"
  by (simp add: load_pet_state_def)

lemma load_pet_state_file: "snd (load_pet_state now f) = f"
  by (cases f) (simp_all add: load_pet_state_def)

lemma load_pet_state_dict:
  "f = Absent \<or> (\<exists>d. f = Document (PDict d)) \<Longrightarrow>
   \<exists>state. load_pet_state now f = (Inr (PDict state), f)"
  by (auto simp: load_pet_state_Absent load_pet_state_Document)

lemma default_state_inj: "default_state s = default_state t \<Longrightarrow> s = t"
  by (simp add: default_state_def)

text \<open>What a successful update returns and writes, in terms of the loaded dict.\<close>

lemma update_result:
  assumes "load_pet_state now f = (Inr (PDict state), f')"
    and "calculate_pet_stats (make_email_stats u t a r d ap v b) = (h, p, e)"
  shows "update_pet_from_email_data u t a r d ap v b now f =
     (Inr (''Pet updated! Health: '' @ str_int h @ '', Happiness: '' @ str_int p @
           '', Energy: '' @ str_int e),
      Document (PDict
        (AList.update ''mood_emoji'' (PStr (snd (classify (real_of_int (h + p + e) / 3))))
        (AList.update ''status'' (PStr (fst (classify (real_of_int (h + p + e) / 3))))
        (AList.update ''last_updated'' (PStr now)
        (AList.update ''energy'' (PInt e)
        (AList.update ''happiness'' (PInt p)
        (AList.update ''health'' (PInt h) state))))))))"
  using assms
  by (simp add: update_pet_from_email_data_def save_pet_state_def py_setitem_def and_then_def
      Let_def split: prod.splits)

text \<open>The two ways an update raises; the file is left as it was.\<close>

lemma update_Malformed:
  "update_pet_from_email_data u t a r d ap v b now Malformed = (Inl JSONDecodeError, Malformed)"
  by (simp add: update_pet_from_email_data_def load_pet_state_Malformed Let_def
      split: prod.splits)

lemma update_NotDict:
  "update_pet_from_email_data u t a r d ap v b now (Document PNotDict) =
     (Inl TypeError, Document PNotDict)"
  by (simp add: update_pet_from_email_data_def load_pet_state_Document py_setitem_def
      and_then_def Let_def split: prod.splits)

lemma update_success_dict:
  assumes "update_pet_from_email_data u t a r d ap v b now f = (Inr msg, f')"
  shows "\<exists>state. load_pet_state now f = (Inr (PDict state), f)"
proof (cases f)
  case Absent
  then show ?thesis by (simp add: load_pet_state_Absent)
next
  case Malformed
  then show ?thesis using assms by (simp add: update_Malformed)
next
  case (Document j)
  then show ?thesis using assms
    by (cases j) (simp_all add: update_NotDict load_pet_state_Document)
qed

lemma update_failure_file:
  assumes "update_pet_from_email_data u t a r d ap v b now f = (Inl err, f')"
  shows "f' = f"
proof (cases "f = Absent \<or> (\<exists>d. f = Document (PDict d))")
  case True
  then obtain state where ld: "load_pet_state now f = (Inr (PDict state), f)"
    using load_pet_state_dict by blast
  obtain h p e where sc: "calculate_pet_stats (make_email_stats u t a r d ap v b) = (h, p, e)"
    by (cases "calculate_pet_stats (make_email_stats u t a r d ap v b)") auto
  show ?thesis using update_result [OF ld sc] assms by simp
next
  case False
  then have "f = Malformed \<or> f = Document PNotDict"
  proof (cases f)
    case (Document j)
    then show ?thesis using False by (cases j) simp_all
  qed simp_all
  then show ?thesis using assms by (auto simp: update_Malformed update_NotDict)
qed

lemma update_defaults_Absent:
  "update_pet_from_email_data 0 0 0 24 0 50 10 False ''2025-01-01T00:00:00'' Absent =
     (Inr ''Pet updated! Health: 65, Happiness: 75, Energy: 50'',
      Document (PDict
       [(''name'', PStr ''Pokagotchi''),
        (''health'', PInt 65),
        (''happiness'', PInt 75),
        (''energy'', PInt 50),
        (''last_updated'', PStr ''2025-01-01T00:00:00''),
        (''status'', PStr ''okay''),
        (''mood_emoji'', PStr face_neutral)]))"
  by (simp add: update_result [OF load_pet_state_Absent scores_defaults]
      str_int_examples default_state_def classify_def)

lemma written_state_ok:
  assumes "0 \<le> h" "h \<le> 100" "0 \<le> p" "p \<le> 100" "0 \<le> e" "e \<le> 100"
  shows "pet_state_ok
        (AList.update ''mood_emoji'' (PStr (snd (classify (real_of_int (h + p + e) / 3))))
        (AList.update ''status'' (PStr (fst (classify (real_of_int (h + p + e) / 3))))
        (AList.update ''last_updated'' (PStr now)
        (AList.update ''energy'' (PInt e)
        (AList.update ''happiness'' (PInt p)
        (AList.update ''health'' (PInt h) state))))))"
  using assms
  by (simp add: pet_state_ok_def int_field_def str_field_def update_conv' classify_def
      faces_distinct Let_def)

lemma default_state_ok: "pet_state_ok (default_state now)"
  by (simp add: pet_state_ok_def int_field_def str_field_def default_state_def faces_distinct)

lemma overflow_bound: "(300::int) < 3 * (2 ^ 1024 - 2 ^ 970)"
  by simp

lemma py_div3_small: "\<bar>n\<bar> \<le> 300 \<Longrightarrow> py_div3 n = Inr (real_of_int n / 3)"
  using overflow_bound by (simp add: py_div3_def)

text \<open>
  The report on the default state ends with the clock reading, so two readings give the
  same report only when they are the same text.
\<close>

lemma status_report_default_inj:
  "status_report (PDict (default_state s)) = status_report (PDict (default_state t)) \<Longrightarrow> s = t"
  by (simp add: status_report_def default_state_def py_getitem_def and_then_def
      get_pet_ascii_art_def get_status_message_def py_div3_small)

lemma check_pet_status_file: "snd (check_pet_status now f) = f"
  by (cases f) (simp_all add: check_pet_status_def load_pet_state_def)

subsection \<open>Scores are clamped\<close>

text \<open>
  C1. For every input of the scoring function (any integers, any real response time, any
  flag, and any key missing), each of health, happiness and energy returned by
  \<open>calculate_pet_stats\<close> lies in the interval from 0 to 100.
\<close>

theorem calculate_pet_stats_in_range:
  "0 \<le> fst (calculate_pet_stats stats) \<and> fst (calculate_pet_stats stats) \<le> 100 \<and>
   0 \<le> fst (snd (calculate_pet_stats stats)) \<and> fst (snd (calculate_pet_stats stats)) \<le> 100 \<and>
   0 \<le> snd (snd (calculate_pet_stats stats)) \<and> snd (snd (calculate_pet_stats stats)) \<le> 100"
  by (rule scores_clamped)

subsection \<open>Every state the program produces satisfies the invariant\<close>

text \<open>
  C2. The default state that is returned when no record is persisted, and every state
  that the update tool writes, satisfy the invariant: health, happiness and energy are
  integers from 0 to 100, and status and mood_emoji are the band of their mean (at least
  80: thriving with the happy face; from 50 up to 80: okay with the neutral face; below
  50: struggling with the dizzy face). Whenever the update returns, what it has written is
  a dict that satisfies the invariant; it returns from an absent file and from every file
  that holds a JSON object. Whenever it raises, it has written nothing: the file is as it
  was. It raises \<open>JSONDecodeError\<close> on a malformed file and \<open>TypeError\<close> on a JSON document
  that is not an object.
\<close>

theorem produced_states_ok:
  "pet_state_ok (default_state now) \<and>
   (\<forall>msg f'.
      update_pet_from_email_data u t a r d ap v b now f = (Inr msg, f') \<longrightarrow>
        (\<exists>state. f' = Document (PDict state) \<and> pet_state_ok state)) \<and>
   (\<forall>err f'.
      update_pet_from_email_data u t a r d ap v b now f = (Inl err, f') \<longrightarrow> f' = f) \<and>
   (f = Absent \<or> (\<exists>old. f = Document (PDict old)) \<longrightarrow>
      (\<exists>msg state.
          update_pet_from_email_data u t a r d ap v b now f = (Inr msg, Document (PDict state)) \<and>
          pet_state_ok state)) \<and>
   (f = Malformed \<longrightarrow>
      update_pet_from_email_data u t a r d ap v b now f = (Inl JSONDecodeError, f)) \<and>
   (f = Document PNotDict \<longrightarrow>
      update_pet_from_email_data u t a r d ap v b now f = (Inl TypeError, f))"
proof -
  obtain h p e where sc: "calculate_pet_stats (make_email_stats u t a r d ap v b) = (h, p, e)"
    by (cases "calculate_pet_stats (make_email_stats u t a r d ap v b)") auto
  have rng: "0 \<le> h" "h \<le> 100" "0 \<le> p" "p \<le> 100" "0 \<le> e" "e \<le> 100"
    using scores_clamped [of "make_email_stats u t a r d ap v b"] by (simp_all add: sc)
  have written: "\<exists>msg state.
      update_pet_from_email_data u t a r d ap v b now f = (Inr msg, Document (PDict state)) \<and>
      pet_state_ok state"
    if ld: "load_pet_state now f = (Inr (PDict st), f)" for st
    using update_result [OF ld sc] written_state_ok [OF rng] by blast
  have ok: "\<exists>state. f' = Document (PDict state) \<and> pet_state_ok state"
    if up: "update_pet_from_email_data u t a r d ap v b now f = (Inr msg, f')" for msg f'
  proof -
    obtain st where "load_pet_state now f = (Inr (PDict st), f)"
      using update_success_dict [OF up] by blast
    then show ?thesis using written up by fastforce
  qed
  have unchanged: "f' = f"
    if "update_pet_from_email_data u t a r d ap v b now f = (Inl err, f')" for err f'
    using that by (rule update_failure_file)
  have succeeds: "\<exists>msg state.
      update_pet_from_email_data u t a r d ap v b now f = (Inr msg, Document (PDict state)) \<and>
      pet_state_ok state"
    if "f = Absent \<or> (\<exists>old. f = Document (PDict old))"
    using load_pet_state_dict [OF that] written by blast
  show ?thesis
    using default_state_ok ok unchanged succeeds
    by (auto simp: update_Malformed update_NotDict)
qed

theorem produced_states_ok_witness:
  "pet_state_ok (default_state ''2025-01-01T00:00:00'') \<and>
   update_pet_from_email_data 0 0 0 24 0 50 10 False ''2025-01-01T00:00:00'' Absent =
     (Inr ''Pet updated! Health: 65, Happiness: 75, Energy: 50'',
      Document (PDict
       [(''name'', PStr ''Pokagotchi''),
        (''health'', PInt 65),
        (''happiness'', PInt 75),
        (''energy'', PInt 50),
        (''last_updated'', PStr ''2025-01-01T00:00:00''),
        (''status'', PStr ''okay''),
        (''mood_emoji'', PStr face_neutral)])) \<and>
   pet_state_ok
       [(''name'', PStr ''Pokagotchi''),
        (''health'', PInt 65),
        (''happiness'', PInt 75),
        (''energy'', PInt 50),
        (''last_updated'', PStr ''2025-01-01T00:00:00''),
        (''status'', PStr ''okay''),
        (''mood_emoji'', PStr face_neutral)] \<and>
   update_pet_from_email_data 0 0 0 24 0 50 10 False ''2025-01-01T00:00:00'' Malformed
        = (Inl JSONDecodeError, Malformed) \<and>
   update_pet_from_email_data 0 0 0 24 0 50 10 False ''2025-01-01T00:00:00''
        (Document PNotDict) = (Inl TypeError, Document PNotDict)"
  using produced_states_ok [of "''2025-01-01T00:00:00''" 0 0 0 24 0 50 10 False Absent]
    produced_states_ok [of "''2025-01-01T00:00:00''" 0 0 0 24 0 50 10 False Malformed]
    produced_states_ok [of "''2025-01-01T00:00:00''" 0 0 0 24 0 50 10 False "Document PNotDict"]
  by (simp add: update_defaults_Absent)

subsection \<open>The default input\<close>

text \<open>
  C3. On the all-defaults input (unread 0, inbox 0, awaiting reply 0, response time 24.0,
  dormant threads 0, action percent 50, volume 10, not busy) the scoring function returns
  exactly health 65, happiness 75, energy 50; so it does on the empty dict, where every
  \<open>.get\<close> falls back to its default.
\<close>

theorem calculate_pet_stats_defaults:
  "calculate_pet_stats (make_email_stats 0 0 0 24 0 50 10 False) = (65, 75, 50) \<and>
   calculate_pet_stats
     \<lparr> unread_count = None, total_inbox_count = None, emails_awaiting_reply = None,
       avg_response_time_hours = None, dormant_threads_7days = None,
       action_emails_percent = None, volume_today = None, is_busy_period = None \<rparr>
     = (65, 75, 50)"
  by (simp add: calculate_pet_stats_def make_email_stats_def dict_get_def)

subsection \<open>Classification by the mean\<close>

text \<open>
  C4. The classification maps the mean to status and mood symbol: at least 80 gives
  thriving, from 50 up to 80 gives okay, below 50 gives struggling; exactly 80 gives
  thriving, 79.999 gives okay, exactly 50 gives okay, 49.999 gives struggling. The update
  tool applies it to the real-valued mean of the three clamped scores, as it is: whenever
  the update succeeds, the status and mood_emoji it writes are the classification of
  \<open>(health + happiness + energy) / 3\<close>.
\<close>

theorem classify_thresholds:
  "(80 \<le> avg \<longrightarrow> classify avg = (''thriving'', face_happy)) \<and>
   (50 \<le> avg \<and> avg < 80 \<longrightarrow> classify avg = (''okay'', face_neutral)) \<and>
   (avg < 50 \<longrightarrow> classify avg = (''struggling'', face_dizzy)) \<and>
   classify 80 = (''thriving'', face_happy) \<and>
   classify (79999 / 1000) = (''okay'', face_neutral) \<and>
   classify 50 = (''okay'', face_neutral) \<and>
   classify (49999 / 1000) = (''struggling'', face_dizzy) \<and>
   (\<forall>state msg h p e.
      calculate_pet_stats (make_email_stats u t a r d ap v b) = (h, p, e) \<and>
      update_pet_from_email_data u t a r d ap v b now f = (Inr msg, Document (PDict state)) \<longrightarrow>
        (map_of state ''status'', map_of state ''mood_emoji'') =
        (Some (PStr (fst (classify (real_of_int (h + p + e) / 3)))),
         Some (PStr (snd (classify (real_of_int (h + p + e) / 3))))))"
proof -
  have upd: "(map_of state ''status'', map_of state ''mood_emoji'') =
        (Some (PStr (fst (classify (real_of_int (h + p + e) / 3)))),
         Some (PStr (snd (classify (real_of_int (h + p + e) / 3)))))"
    if sc: "calculate_pet_stats (make_email_stats u t a r d ap v b) = (h, p, e)"
      and up: "update_pet_from_email_data u t a r d ap v b now f
                 = (Inr msg, Document (PDict state))"
    for state msg h p e
  proof -
    obtain st where ld: "load_pet_state now f = (Inr (PDict st), f)"
      using update_success_dict [OF up] by blast
    show ?thesis
      using update_result [OF ld sc] up by (auto simp: update_conv')
  qed
  show ?thesis
    using upd by (simp add: classify_def)
qed

theorem classify_thresholds_witness:
  "(80 \<le> (250 / 3 :: real)) \<and> classify (250 / 3) = (''thriving'', face_happy) \<and>
   (50 \<le> (190 / 3 :: real) \<and> (190 / 3 :: real) < 80) \<and>
   classify (190 / 3) = (''okay'', face_neutral) \<and>
   ((10 :: real) < 50) \<and> classify 10 = (''struggling'', face_dizzy) \<and>
   calculate_pet_stats (make_email_stats 0 0 0 24 0 50 10 False) = (65, 75, 50) \<and>
   update_pet_from_email_data 0 0 0 24 0 50 10 False ''2025-01-01T00:00:00'' Absent =
     (Inr ''Pet updated! Health: 65, Happiness: 75, Energy: 50'',
      Document (PDict
       [(''name'', PStr ''Pokagotchi''),
        (''health'', PInt 65),
        (''happiness'', PInt 75),
        (''energy'', PInt 50),
        (''last_updated'', PStr ''2025-01-01T00:00:00''),
        (''status'', PStr ''okay''),
        (''mood_emoji'', PStr face_neutral)])) \<and>
   (Some (PStr ''okay''), Some (PStr face_neutral)) =
     (Some (PStr (fst (classify (real_of_int (65 + 75 + 50) / 3)))),
      Some (PStr (snd (classify (real_of_int (65 + 75 + 50) / 3)))))"
  using classify_thresholds [where avg = "250 / 3"] classify_thresholds [where avg = "190 / 3"]
    classify_thresholds [where avg = 10 and u = 0 and t = 0 and a = 0 and r = 24 and d = 0
      and ap = 50 and v = 10 and b = False and now = "''2025-01-01T00:00:00''" and f = Absent]
  by (simp add: update_defaults_Absent scores_defaults)

subsection \<open>When an update can write thriving\<close>

text \<open>
  C5, as the claim states it, fails: \<open>dormant_threads_7days\<close> is any integer, and a
  negative one raises health (here \<open>-4\<close> gives health 100); with an energy of 75 the
  update then writes thriving.
\<close>

theorem update_thriving_counterexample:
  "\<not> fst (calculate_pet_stats (make_email_stats 0 0 0 24 (- 4) 10 5 False)) \<le> 70 \<and>
   update_pet_from_email_data 0 0 0 24 (- 4) 10 5 False ''2025-01-01T00:00:00'' Absent =
     (Inr ''Pet updated! Health: 100, Happiness: 75, Energy: 75'',
      Document (PDict
       [(''name'', PStr ''Pokagotchi''),
        (''health'', PInt 100),
        (''happiness'', PInt 75),
        (''energy'', PInt 75),
        (''last_updated'', PStr ''2025-01-01T00:00:00''),
        (''status'', PStr ''thriving''),
        (''mood_emoji'', PStr face_happy)]))"
  by (simp add: update_result [OF load_pet_state_Absent scores_negative_dormant]
      scores_negative_dormant str_int_examples default_state_def classify_def)

text \<open>
  C5, amended. For every input, happiness and energy are at most 75. When
  \<open>dormant_threads_7days\<close> is not negative, health is at most 70, the mean of the three
  scores is at most 220/3, which is below 80, and a successful update never writes the
  status thriving or the happy face.
\<close>

theorem update_never_thriving:
  "fst (snd (calculate_pet_stats stats)) \<le> 75 \<and>
   snd (snd (calculate_pet_stats stats)) \<le> 75 \<and>
   (0 \<le> dict_get (dormant_threads_7days stats) 0 \<longrightarrow>
      fst (calculate_pet_stats stats) \<le> 70 \<and>
      real_of_int (fst (calculate_pet_stats stats) + fst (snd (calculate_pet_stats stats))
         + snd (snd (calculate_pet_stats stats))) / 3 \<le> 220 / 3 \<and>
      (220 / 3 :: real) < 80) \<and>
   (0 \<le> d \<longrightarrow>
      (\<forall>msg state.
         update_pet_from_email_data u t a r d ap v b now f = (Inr msg, Document (PDict state))
         \<longrightarrow>
           map_of state ''status'' \<noteq> Some (PStr ''thriving'') \<and>
           map_of state ''mood_emoji'' \<noteq> Some (PStr face_happy)))"
proof (intro conjI impI allI)
  show "fst (snd (calculate_pet_stats stats)) \<le> 75" by (rule happiness_bound)
  show "snd (snd (calculate_pet_stats stats)) \<le> 75" by (rule energy_bound)
  show "(220 / 3 :: real) < 80" by simp
next
  assume "0 \<le> dict_get (dormant_threads_7days stats) 0"
  then show h: "fst (calculate_pet_stats stats) \<le> 70" by (rule health_bound)
  show "real_of_int (fst (calculate_pet_stats stats) + fst (snd (calculate_pet_stats stats))
         + snd (snd (calculate_pet_stats stats))) / 3 \<le> 220 / 3"
    using h happiness_bound [of stats] energy_bound [of stats] by simp
next
  fix msg state
  assume d: "0 \<le> d"
    and up: "update_pet_from_email_data u t a r d ap v b now f
               = (Inr msg, Document (PDict state))"
  obtain h p e where sc: "calculate_pet_stats (make_email_stats u t a r d ap v b) = (h, p, e)"
    by (cases "calculate_pet_stats (make_email_stats u t a r d ap v b)") auto
  have dd: "0 \<le> dict_get (dormant_threads_7days (make_email_stats u t a r d ap v b)) 0"
    using d by (simp add: make_email_stats_def dict_get_def)
  have "h \<le> 70" "p \<le> 75" "e \<le> 75"
    using health_bound [OF dd] happiness_bound [of "make_email_stats u t a r d ap v b"]
      energy_bound [of "make_email_stats u t a r d ap v b"]
    by (simp_all add: sc)
  then have lt: "real_of_int (h + p + e) / 3 < 80" by simp
  obtain st where ld: "load_pet_state now f = (Inr (PDict st), f)"
    using update_success_dict [OF up] by blast
  have cl: "fst (classify (real_of_int (h + p + e) / 3)) \<noteq> ''thriving''"
    "snd (classify (real_of_int (h + p + e) / 3)) \<noteq> face_happy"
    using lt by (simp_all add: classify_def faces_distinct)
  show "map_of state ''status'' \<noteq> Some (PStr ''thriving'')"
    using update_result [OF ld sc] up cl by (auto simp: update_conv')
  show "map_of state ''mood_emoji'' \<noteq> Some (PStr face_happy)"
    using update_result [OF ld sc] up cl by (auto simp: update_conv')
qed

theorem update_never_thriving_witness:
  "(0::int) \<le> dict_get (dormant_threads_7days (make_email_stats 0 0 0 24 0 50 10 False)) 0 \<and>
   fst (calculate_pet_stats (make_email_stats 0 0 0 24 0 50 10 False)) \<le> 70 \<and>
   (0::int) \<le> 0 \<and>
   update_pet_from_email_data 0 0 0 24 0 50 10 False ''2025-01-01T00:00:00'' Absent =
     (Inr ''Pet updated! Health: 65, Happiness: 75, Energy: 50'',
      Document (PDict
       [(''name'', PStr ''Pokagotchi''),
        (''health'', PInt 65),
        (''happiness'', PInt 75),
        (''energy'', PInt 50),
        (''last_updated'', PStr ''2025-01-01T00:00:00''),
        (''status'', PStr ''okay''),
        (''mood_emoji'', PStr face_neutral)])) \<and>
   map_of [(''name'', PStr ''Pokagotchi''),
        (''health'', PInt 65),
        (''happiness'', PInt 75),
        (''energy'', PInt 50),
        (''last_updated'', PStr ''2025-01-01T00:00:00''),
        (''status'', PStr ''okay''),
        (''mood_emoji'', PStr face_neutral)] ''status'' \<noteq> Some (PStr ''thriving'')"
  using update_never_thriving [of "make_email_stats 0 0 0 24 0 50 10 False" 0 0 0 0 24 50 10
      False "''2025-01-01T00:00:00''" Absent]
  by (simp add: update_defaults_Absent make_email_stats_def dict_get_def)

subsection \<open>Loading\<close>

text \<open>
  C6. \<open>load_pet_state\<close> returns the default state (name Pokagotchi, health 75, happiness
  75, energy 75, status okay) when the record is absent, and leaves the file as it is:
  the default is not written. It returns the default only then: a file that is present
  gives its own document whatever the clock reads, so the result is the default state of
  the clock reading at every reading exactly when the file is absent. A failure of the
  read other than absence (here: malformed JSON) is not caught and leaves the function as
  an error.
\<close>

theorem load_default_iff_absent:
  "load_pet_state now Absent = (Inr (PDict (default_state now)), Absent) \<and>
   map_of (default_state now) ''name'' = Some (PStr ''Pokagotchi'') \<and>
   map_of (default_state now) ''health'' = Some (PInt 75) \<and>
   map_of (default_state now) ''happiness'' = Some (PInt 75) \<and>
   map_of (default_state now) ''energy'' = Some (PInt 75) \<and>
   map_of (default_state now) ''status'' = Some (PStr ''okay'') \<and>
   ((\<forall>t. fst (load_pet_state t f) = Inr (PDict (default_state t))) = (f = Absent)) \<and>
   (\<forall>d. f = Document d \<longrightarrow> fst (load_pet_state now f) = Inr d) \<and>
   snd (load_pet_state now f) = f \<and>
   (\<forall>e. read_json f = Inl e \<and> e \<noteq> FileNotFoundError \<longrightarrow>
        fst (load_pet_state now f) = Inl e) \<and>
   load_pet_state now Malformed = (Inl JSONDecodeError, Malformed)"
proof -
  have iff: "(\<forall>t. fst (load_pet_state t f) = Inr (PDict (default_state t))) = (f = Absent)"
  proof (cases f)
    case Absent
    then show ?thesis by (simp add: load_pet_state_Absent)
  next
    case Malformed
    then show ?thesis by (simp add: load_pet_state_Malformed)
  next
    case (Document d)
    have "\<not> (\<forall>t. d = PDict (default_state t))"
    proof
      assume "\<forall>t. d = PDict (default_state t)"
      then have "PDict (default_state ''a'') = PDict (default_state ''b'')" by metis
      then show False using default_state_inj by fastforce
    qed
    then show ?thesis using Document by (simp add: load_pet_state_Document)
  qed
  have err: "\<forall>e. read_json f = Inl e \<and> e \<noteq> FileNotFoundError \<longrightarrow>
      fst (load_pet_state now f) = Inl e"
    by (auto simp: load_pet_state_def split: pyerror.splits)
  show ?thesis
    using iff err
    by (simp add: load_pet_state_Absent load_pet_state_Malformed load_pet_state_Document
        load_pet_state_file default_state_def)
qed

theorem load_default_iff_absent_witness:
  "load_pet_state ''2025-01-01T00:00:00'' Absent
     = (Inr (PDict (default_state ''2025-01-01T00:00:00'')), Absent) \<and>
   fst (load_pet_state ''2025-01-01T00:00:00'' (Document (PDict [(''name'', PStr ''Rex'')])))
     = Inr (PDict [(''name'', PStr ''Rex'')]) \<and>
   read_json Malformed = Inl JSONDecodeError \<and> JSONDecodeError \<noteq> FileNotFoundError \<and>
   fst (load_pet_state ''2025-01-01T00:00:00'' Malformed) = Inl JSONDecodeError"
  using load_default_iff_absent [of "''2025-01-01T00:00:00''" Absent]
    load_default_iff_absent [of "''2025-01-01T00:00:00''"
      "Document (PDict [(''name'', PStr ''Rex'')])"]
    load_default_iff_absent [of "''2025-01-01T00:00:00''" Malformed]
  by simp

subsection \<open>Two status calls in a row\<close>

text \<open>
  C7, as the claim states it, fails when no record is persisted: each call builds the
  default state with its own clock reading, so the two reports differ in their last line.
\<close>

theorem check_pet_status_twice_counterexample:
  "fst (check_pet_status ''2025-01-01T00:00:01''
         (snd (check_pet_status ''2025-01-01T00:00:00'' Absent)))
   \<noteq> fst (check_pet_status ''2025-01-01T00:00:00'' Absent)"
  by (simp add: check_pet_status_def load_pet_state_Absent status_report_def default_state_def
      py_getitem_def and_then_def get_pet_ascii_art_def get_status_message_def py_div3_small)

text \<open>
  C7, amended. The status tool leaves the file as it is, and a second call right after
  the first gives the same output, the last_updated line included, for every file that is
  present; when no record is persisted the two outputs are the same exactly when the
  clock reads the same at both calls.
\<close>

theorem check_pet_status_twice:
  "((fst (check_pet_status t2 (snd (check_pet_status t1 f))) = fst (check_pet_status t1 f))
      = (f \<noteq> Absent \<or> t1 = t2)) \<and>
   snd (check_pet_status t1 f) = f"
proof (cases f)
  case Absent
  then show ?thesis
    using status_report_default_inj [of t2 t1]
    by (auto simp: check_pet_status_file check_pet_status_def load_pet_state_Absent)
next
  case Malformed
  then show ?thesis
    by (simp add: check_pet_status_file) (simp add: check_pet_status_def load_pet_state_Malformed)
next
  case (Document d)
  then show ?thesis
    by (simp add: check_pet_status_file) (simp add: check_pet_status_def load_pet_state_Document)
qed

theorem check_pet_status_twice_witness:
  "Document (PDict (default_state ''2024-12-31T08:30:00'')) \<noteq> Absent \<and>
   fst (check_pet_status ''2025-01-01T00:00:01''
         (snd (check_pet_status ''2025-01-01T00:00:00''
                 (Document (PDict (default_state ''2024-12-31T08:30:00''))))))
     = fst (check_pet_status ''2025-01-01T00:00:00''
              (Document (PDict (default_state ''2024-12-31T08:30:00''))))"
  using check_pet_status_twice [of "''2025-01-01T00:00:01''" "''2025-01-01T00:00:00''"
      "Document (PDict (default_state ''2024-12-31T08:30:00''))"]
  by auto

subsection \<open>Saving, then loading\<close>

text \<open>
  C8. For every pet state, \<open>save_pet_state\<close> followed by \<open>load_pet_state\<close> gives back the
  saved state: the same keys in the same order with the same values, whatever the file
  held before and whatever the clock reads.
\<close>

theorem save_then_load:
  "load_pet_state now (save_pet_state state f) = (Inr state, save_pet_state state f)"
  by (simp add: save_pet_state_def load_pet_state_def)

subsection \<open>What an update changes\<close>

text \<open>
  C9. For every input and every loaded state (the persisted document, or the default
  state when the file is absent), the update tool writes the loaded state with the keys
  health, happiness, energy, last_updated, status and mood_emoji set to the new scores,
  the clock reading and the classification of the mean; every other key, name in
  particular, keeps its value; the returned text holds the three new scores.
\<close>

theorem update_frame:
  assumes "load_pet_state now f = (Inr (PDict state), f)"
    and "calculate_pet_stats (make_email_stats u t a r d ap v b) = (h, p, e)"
  shows "\<exists>state'.
     update_pet_from_email_data u t a r d ap v b now f =
       (Inr (''Pet updated! Health: '' @ str_int h @ '', Happiness: '' @ str_int p @
             '', Energy: '' @ str_int e),
        Document (PDict state')) \<and>
     map_of state' ''health'' = Some (PInt h) \<and>
     map_of state' ''happiness'' = Some (PInt p) \<and>
     map_of state' ''energy'' = Some (PInt e) \<and>
     map_of state' ''last_updated'' = Some (PStr now) \<and>
     map_of state' ''status'' = Some (PStr (fst (classify (real_of_int (h + p + e) / 3)))) \<and>
     map_of state' ''mood_emoji'' = Some (PStr (snd (classify (real_of_int (h + p + e) / 3)))) \<and>
     (\<forall>k. k \<notin> {''health'', ''happiness'', ''energy'', ''last_updated'', ''status'',
               ''mood_emoji''} \<longrightarrow> map_of state' k = map_of state k) \<and>
     map_of state' ''name'' = map_of state ''name''"
  by (simp add: update_result [OF assms] update_conv')

theorem update_frame_witness:
  "load_pet_state ''2025-06-01T12:00:00''
      (Document (PDict
         [(''name'', PStr ''Rex''), (''health'', PInt 10), (''colour'', PStr ''red'')]))
     = (Inr (PDict [(''name'', PStr ''Rex''), (''health'', PInt 10), (''colour'', PStr ''red'')]),
        Document (PDict
          [(''name'', PStr ''Rex''), (''health'', PInt 10), (''colour'', PStr ''red'')])) \<and>
   calculate_pet_stats (make_email_stats 0 0 0 24 0 50 10 False) = (65, 75, 50) \<and>
   (\<exists>state'.
      update_pet_from_email_data 0 0 0 24 0 50 10 False ''2025-06-01T12:00:00''
        (Document (PDict
           [(''name'', PStr ''Rex''), (''health'', PInt 10), (''colour'', PStr ''red'')]))
        = (Inr ''Pet updated! Health: 65, Happiness: 75, Energy: 50'', Document (PDict state')) \<and>
      map_of state' ''health'' = Some (PInt 65) \<and>
      map_of state' ''name'' = Some (PStr ''Rex'') \<and>
      map_of state' ''colour'' = Some (PStr ''red''))"
proof -
  let ?d = "[(''name'', PStr ''Rex''), (''health'', PInt 10), (''colour'', PStr ''red'')]"
  have ld: "load_pet_state ''2025-06-01T12:00:00'' (Document (PDict ?d))
              = (Inr (PDict ?d), Document (PDict ?d))"
    by (rule load_pet_state_Document)
  obtain state' where
    "update_pet_from_email_data 0 0 0 24 0 50 10 False ''2025-06-01T12:00:00''
         (Document (PDict ?d)) =
       (Inr (''Pet updated! Health: '' @ str_int 65 @ '', Happiness: '' @ str_int 75 @
             '', Energy: '' @ str_int 50), Document (PDict state'))"
    "map_of state' ''health'' = Some (PInt 65)"
    "map_of state' ''name'' = map_of ?d ''name''"
    "\<forall>k. k \<notin> {''health'', ''happiness'', ''energy'', ''last_updated'', ''status'',
               ''mood_emoji''} \<longrightarrow> map_of state' k = map_of ?d k"
    using update_frame [OF ld scores_defaults] by blast
  then have
    "update_pet_from_email_data 0 0 0 24 0 50 10 False ''2025-06-01T12:00:00''
         (Document (PDict ?d)) =
       (Inr ''Pet updated! Health: 65, Happiness: 75, Energy: 50'', Document (PDict state')) \<and>
     map_of state' ''health'' = Some (PInt 65) \<and>
     map_of state' ''name'' = Some (PStr ''Rex'') \<and>
     map_of state' ''colour'' = Some (PStr ''red'')"
    by (simp add: str_int_examples)
  then show ?thesis using ld scores_defaults by blast
qed

subsection \<open>Advice\<close>

text \<open>
  C10. \<open>get_pet_advice\<close> checks three conditions, each on its own: health below 70 adds
  the reply-to-emails tip, happiness below 70 the inbox-zero tip, energy below 70 the
  take-breaks tip, in this order, joined by newlines; the congratulation is the output
  exactly when none of the three holds. For health 60, happiness 60 and energy 60 the
  output is the three tips in the order health, happiness, energy, and the congratulation
  is none of them.
\<close>

theorem advice_checklist:
  assumes "load_pet_state now f = (Inr (PDict state), f)"
    and "and_then (py_getitem (PDict state) ''health'') py_num = Inr h"
    and "and_then (py_getitem (PDict state) ''happiness'') py_num = Inr p"
    and "and_then (py_getitem (PDict state) ''energy'') py_num = Inr e"
  shows "get_pet_advice now f =
      (Inr (py_join [CHR 0x0A]
        ((if h < 70 then [tip_health] else []) @
         (if p < 70 then [tip_happiness] else []) @
         (if e < 70 then [tip_energy] else []) @
         (if h < 70 \<or> p < 70 \<or> e < 70 then [] else [great_job]))), f) \<and>
     (h = 60 \<and> p = 60 \<and> e = 60 \<longrightarrow>
        fst (get_pet_advice now f) =
          Inr (tip_health @ [CHR 0x0A] @ tip_happiness @ [CHR 0x0A] @ tip_energy)) \<and>
     great_job \<notin> set [tip_health, tip_happiness, tip_energy]"
  using assms
  by (simp add: get_pet_advice_def advice_lines_def and_then_def Let_def tips_distinct)

theorem advice_checklist_witness:
  "load_pet_state ''2025-06-01T12:00:00''
      (Document (PDict
         [(''health'', PInt 60), (''happiness'', PInt 60), (''energy'', PInt 60)]))
     = (Inr (PDict [(''health'', PInt 60), (''happiness'', PInt 60), (''energy'', PInt 60)]),
        Document (PDict
          [(''health'', PInt 60), (''happiness'', PInt 60), (''energy'', PInt 60)])) \<and>
   fst (get_pet_advice ''2025-06-01T12:00:00''
      (Document (PDict
         [(''health'', PInt 60), (''happiness'', PInt 60), (''energy'', PInt 60)])))
     = Inr (tip_health @ [CHR 0x0A] @ tip_happiness @ [CHR 0x0A] @ tip_energy)"
proof -
  let ?d = "[(''health'', PInt 60), (''happiness'', PInt 60), (''energy'', PInt 60)]"
  have ld: "load_pet_state ''2025-06-01T12:00:00'' (Document (PDict ?d))
              = (Inr (PDict ?d), Document (PDict ?d))"
    by (rule load_pet_state_Document)
  have g: "and_then (py_getitem (PDict ?d) ''health'') py_num = Inr 60"
    "and_then (py_getitem (PDict ?d) ''happiness'') py_num = Inr 60"
    "and_then (py_getitem (PDict ?d) ''energy'') py_num = Inr 60"
    by (simp_all add: and_then_def py_getitem_def)
  show ?thesis
    using advice_checklist [OF ld g] ld by simp
qed

end
